theory Spec2Isabelle
  imports Complex_Main
begin

section \<open>Values loaded from a snapshot file\<close>

text \<open>
  A snapshot is what \<^verbatim>\<open>json.load\<close> returns: \<^verbatim>\<open>None\<close>, a bool, a number, a
  string, a list or a dict with string keys. A finite number is kept by its exact value
  (an \<^verbatim>\<open>int\<close> and a \<^verbatim>\<open>float\<close> of the same value are equal in Python and behave
  alike under every operation used here); for the tokens \<^verbatim>\<open>Infinity\<close>,
  \<^verbatim>\<open>-Infinity\<close> and \<^verbatim>\<open>NaN\<close>, which \<^verbatim>\<open>json.load\<close> accepts, it returns the
  floats of these names. A dict is its list of key/value pairs in insertion order; a
  lookup takes the first pair with the key.
\<close>

datatype number = Finite rat | PosInf | NegInf | NaN

datatype json =
    JNull
  | JBool bool
  | JNum number
  | JStr string
  | JArr "json list"
  | JObj "(string \<times> json) list"

datatype error = AttributeError | TypeError | KeyError

definition ebind :: "error + 'a \<Rightarrow> ('a \<Rightarrow> error + 'b) \<Rightarrow> error + 'b" where
  "ebind r f = (case r of Inl e \<Rightarrow> Inl e | Inr v \<Rightarrow> f v)"

definition try_except :: "error + 'a \<Rightarrow> (error \<Rightarrow> error + 'a) \<Rightarrow> error + 'a" where
  "try_except r h = (case r of Inl e \<Rightarrow> h e | Inr v \<Rightarrow> Inr v)"

text \<open>Truth value of an object (\<^verbatim>\<open>if x\<close>, \<^verbatim>\<open>not x\<close>, \<^verbatim>\<open>x or y\<close>).\<close>

fun py_truthy :: "json \<Rightarrow> bool" where
  "py_truthy JNull = False"
| "py_truthy (JBool b) = b"
| "py_truthy (JNum n) = (n \<noteq> Finite 0)"
| "py_truthy (JStr s) = (s \<noteq> [])"
| "py_truthy (JArr xs) = (xs \<noteq> [])"
| "py_truthy (JObj kvs) = (kvs \<noteq> [])"

text \<open>
  Python's \<^verbatim>\<open>==\<close>: \<^verbatim>\<open>True == 1\<close>, NaN is equal to nothing, lists are compared
  element by element, dicts key by key whatever the order of the keys. A list or a dict
  takes two items that are the same object for equal before it asks \<^verbatim>\<open>==\<close>, and
  \<^verbatim>\<open>json.load\<close> returns one object, \<^verbatim>\<open>json.decoder.NaN\<close>, for every token
  \<^verbatim>\<open>NaN\<close>: NaN items are equal where two NaN compared by \<^verbatim>\<open>==\<close> are not. No
  other value that is not equal to itself can be the same object in two places.
\<close>

fun num_eq :: "number \<Rightarrow> number \<Rightarrow> bool" where
  "num_eq NaN b = False"
| "num_eq a NaN = False"
| "num_eq a b = (a = b)"

function (sequential) py_eq :: "json \<Rightarrow> json \<Rightarrow> bool" where
  "py_eq JNull JNull = True"
| "py_eq (JBool a) (JBool b) = (a = b)"
| "py_eq (JBool a) (JNum n) = num_eq (Finite (if a then 1 else 0)) n"
| "py_eq (JNum n) (JBool a) = num_eq n (Finite (if a then 1 else 0))"
| "py_eq (JNum n) (JNum m) = num_eq n m"
| "py_eq (JStr s) (JStr t) = (s = t)"
| "py_eq (JArr xs) (JArr ys) =
     list_all2 (\<lambda>x y. (x = JNum NaN \<and> y = JNum NaN) \<or> py_eq x y) xs ys"
| "py_eq (JObj xs) (JObj ys) =
     (set (map fst xs) = set (map fst ys) \<and>
      list_all (\<lambda>k. case map_of xs k of
                      None \<Rightarrow> False
                    | Some v \<Rightarrow> (case map_of ys k of
                                  None \<Rightarrow> False
                                | Some w \<Rightarrow> (v = JNum NaN \<and> w = JNum NaN) \<or> py_eq v w))
               (map fst xs))"
| "py_eq _ _ = False"
  by pat_completeness auto
termination
proof -
  have less: "size v < Suc (size_list (size_prod (\<lambda>_. 0) size) kvs)"
    if "map_of kvs k = Some v" for kvs :: "(string \<times> json) list" and k v
    using that by (induction kvs) (auto split: if_splits)
  show ?thesis
    by (relation "measure (\<lambda>(a, b). size a)")
       (auto simp: less_Suc_eq_le size_list_estimation' dest: less)
qed

text \<open>The comparison of two items inside a list or a dict.\<close>

definition item_eq :: "json \<Rightarrow> json \<Rightarrow> bool" where
  "item_eq x y = ((x = JNum NaN \<and> y = JNum NaN) \<or> py_eq x y)"

text \<open>\<^verbatim>\<open>obj.get(key, default)\<close>: only a dict has the method; a list or dict key is unhashable.\<close>

fun dict_get :: "json \<Rightarrow> json \<Rightarrow> json \<Rightarrow> error + json" where
  "dict_get (JObj kvs) (JStr k) d = Inr (case map_of kvs k of None \<Rightarrow> d | Some v \<Rightarrow> v)"
| "dict_get (JObj kvs) (JArr xs) d = Inl TypeError"
| "dict_get (JObj kvs) (JObj xs) d = Inl TypeError"
| "dict_get (JObj kvs) _ d = Inr d"
| "dict_get _ _ d = Inl AttributeError"

abbreviation sget :: "json \<Rightarrow> string \<Rightarrow> json \<Rightarrow> error + json" where
  "sget obj k d \<equiv> dict_get obj (JStr k) d"

text \<open>\<^verbatim>\<open>obj.keys()\<close>.\<close>

fun dict_keys :: "json \<Rightarrow> error + string list" where
  "dict_keys (JObj kvs) = Inr (remdups (map fst kvs))"
| "dict_keys _ = Inl AttributeError"

text \<open>
  \<^verbatim>\<open>for x in obj\<close>: a list gives its elements, a dict its keys, a string its
  characters (as strings); nothing else is iterable.
\<close>

fun py_iter :: "json \<Rightarrow> error + json list" where
  "py_iter (JArr xs) = Inr xs"
| "py_iter (JObj kvs) = Inr (map JStr (remdups (map fst kvs)))"
| "py_iter (JStr s) = Inr (map (\<lambda>c. JStr [c]) s)"
| "py_iter _ = Inl TypeError"

text \<open>\<^verbatim>\<open>any(f(x) for x in xs)\<close>: stops at the first true element, raises where \<open>f\<close> does.\<close>

fun py_any :: "('a \<Rightarrow> error + bool) \<Rightarrow> 'a list \<Rightarrow> error + bool" where
  "py_any f [] = Inr False"
| "py_any f (x # xs) =
     (case f x of Inl e \<Rightarrow> Inl e | Inr True \<Rightarrow> Inr True | Inr False \<Rightarrow> py_any f xs)"

text \<open>\<^verbatim>\<open>if not isinstance(x, list): x = [x]\<close>.\<close>

fun as_list :: "json \<Rightarrow> json list" where
  "as_list (JArr xs) = xs"
| "as_list x = [x]"

section \<open>track\_changes.py: current network of a practice\<close>

text \<open>
  The condition of the loop in \<^verbatim>\<open>get_current_pcn\<close>; \<^verbatim>\<open>and\<close> evaluates its
  right operand only when the left one is true.
\<close>

definition pcn_rel_match :: "json \<Rightarrow> error + bool" where
  "pcn_rel_match rel =
     ebind (sget rel ''Target'' (JObj [])) (\<lambda>target.
     ebind (sget target ''PrimaryRoleId'' (JObj [])) (\<lambda>prim.
     ebind (sget prim ''id'' JNull) (\<lambda>rid.
     if \<not> py_eq rid (JStr ''RO272'') then Inr False
     else ebind (sget rel ''Status'' JNull) (\<lambda>status.
     if \<not> py_eq status (JStr ''Active'') then Inr False
     else ebind (sget rel ''Date'' (JArr [])) (\<lambda>dates.
          ebind (py_iter dates) (\<lambda>ds.
          ebind (py_any (\<lambda>d. ebind (sget d ''End'' JNull) (\<lambda>e. Inr (py_truthy e))) ds) (\<lambda>ended.
          Inr (\<not> ended))))))))"

definition target_code :: "json \<Rightarrow> error + json" where
  "target_code rel =
     ebind (sget rel ''Target'' (JObj [])) (\<lambda>target.
     ebind (sget target ''OrgId'' (JObj [])) (\<lambda>org_id.
     sget org_id ''extension'' JNull))"

fun first_pcn :: "json list \<Rightarrow> error + json" where
  "first_pcn [] = Inr JNull"
| "first_pcn (rel # rels) =
     (case pcn_rel_match rel of
        Inl e \<Rightarrow> Inl e
      | Inr True \<Rightarrow> target_code rel
      | Inr False \<Rightarrow> first_pcn rels)"

definition get_current_pcn :: "json \<Rightarrow> error + json" where
  "get_current_pcn org_data =
     try_except
       (ebind (sget org_data ''Rels'' (JObj [])) (\<lambda>rs.
        ebind (sget rs ''Rel'' (JArr [])) (\<lambda>rels.
        first_pcn (as_list rels))))
       (\<lambda>e. Inr JNull)"

section \<open>utils.py\<close>

definition get_pcn_name :: "json \<Rightarrow> json \<Rightarrow> error + json" where
  "get_pcn_name data pcn_ods =
     (if \<not> py_truthy pcn_ods then Inr JNull
      else ebind (sget data ''organisations'' (JObj [])) (\<lambda>orgs.
           ebind (dict_get orgs pcn_ods (JObj [])) (\<lambda>entry.
           ebind (sget entry ''Organisation'' (JObj [])) (\<lambda>org_data.
           sget org_data ''Name'' JNull))))"

section \<open>track\_changes.py: the differ\<close>

text \<open>
  A Change Record is the dict the differ appends. The keys every record has are fields;
  the keys of one kind only (\<^verbatim>\<open>old_status\<close>, \<^verbatim>\<open>new_status\<close>; \<^verbatim>\<open>old_pcn\<close>,
  \<^verbatim>\<open>old_pcn_name\<close>, \<^verbatim>\<open>new_pcn\<close>, \<^verbatim>\<open>new_pcn_name\<close>) are its detail.
\<close>

datatype detail =
    NoDetail
  | StatusDetail (old_status: json) (new_status: json)
  | PcnDetail (old_pcn: json) (old_pcn_name: json) (new_pcn: json) (new_pcn_name: json)

record change =
  ctype :: string
  ods_code :: string
  name :: json
  date_of_change :: json
  detail :: detail

text \<open>
  What a run of a detection function can touch: the two snapshots it is given and its
  local list \<^verbatim>\<open>changes\<close>. A run either returns or raises; the state at that moment
  is kept in both cases.
\<close>

record differ_state =
  old_data :: json
  new_data :: json
  changes :: "change list"

datatype outcome = Done differ_state | Raised error differ_state

fun state_of :: "outcome \<Rightarrow> differ_state" where
  "state_of (Done st) = st"
| "state_of (Raised e st) = st"

text \<open>The value the caller gets: the list returned, or the exception.\<close>

fun returned :: "outcome \<Rightarrow> error + change list" where
  "returned (Done st) = Inr (changes st)"
| "returned (Raised e st) = Inl e"

definition append_change :: "change \<Rightarrow> differ_state \<Rightarrow> differ_state" where
  "append_change c st = st\<lparr>changes := changes st @ [c]\<rparr>"

text \<open>Runs \<open>k\<close> on the value of an expression, or raises its exception in state \<open>st\<close>.\<close>

definition eval_in :: "differ_state \<Rightarrow> error + 'a \<Rightarrow> ('a \<Rightarrow> outcome) \<Rightarrow> outcome" where
  "eval_in st r k = (case r of Inl e \<Rightarrow> Raised e st | Inr v \<Rightarrow> k v)"

definition seq :: "outcome \<Rightarrow> (differ_state \<Rightarrow> outcome) \<Rightarrow> outcome" where
  "seq r k = (case r of Raised e st \<Rightarrow> Raised e st | Done st \<Rightarrow> k st)"

text \<open>\<^verbatim>\<open>orgs.get(ods_code, {}).get("Organisation", {})\<close>.\<close>

definition org_of :: "json \<Rightarrow> string \<Rightarrow> error + json" where
  "org_of orgs code =
     ebind (sget orgs code (JObj [])) (\<lambda>entry. sget entry ''Organisation'' (JObj []))"

text \<open>\<^verbatim>\<open>org.get("Roles", {}).get("Role", []) or []\<close>, iterated.\<close>

definition roles_of :: "json \<Rightarrow> error + json list" where
  "roles_of org =
     ebind (sget org ''Roles'' (JObj [])) (\<lambda>rs.
     ebind (sget rs ''Role'' (JArr [])) (\<lambda>r.
     py_iter (if py_truthy r then r else JArr [])))"

text \<open>The class filters of the two passes.\<close>

definition is_practice :: "json \<Rightarrow> error + bool" where
  "is_practice org =
     ebind (roles_of org) (\<lambda>roles.
     py_any (\<lambda>role. ebind (sget role ''id'' JNull) (\<lambda>i. Inr (py_eq i (JStr ''RO76'')))) roles)"

definition is_pcn :: "json \<Rightarrow> error + bool" where
  "is_pcn org =
     ebind (roles_of org) (\<lambda>roles.
     py_any (\<lambda>role. ebind (sget role ''id'' JNull) (\<lambda>i.
               if py_eq i (JStr ''RO272'')
               then ebind (sget role ''primaryRole'' (JBool False)) (\<lambda>p. Inr (py_truthy p))
               else Inr False)) roles)"

text \<open>The records with \<^verbatim>\<open>name\<close> and \<^verbatim>\<open>date_of_change\<close> read from \<open>org\<close>.\<close>

definition simple_change :: "string \<Rightarrow> string \<Rightarrow> json \<Rightarrow> error + change" where
  "simple_change ty code org =
     ebind (sget org ''Name'' JNull) (\<lambda>n.
     ebind (sget org ''LastChangeDate'' JNull) (\<lambda>d.
     Inr \<lparr>ctype = ty, ods_code = code, name = n, date_of_change = d, detail = NoDetail\<rparr>))"

definition status_change :: "string \<Rightarrow> json \<Rightarrow> json \<Rightarrow> differ_state \<Rightarrow> outcome" where
  "status_change code old_org new_org st =
     eval_in st (sget old_org ''Status'' JNull) (\<lambda>s_old.
     eval_in st (sget new_org ''Status'' JNull) (\<lambda>s_new.
     if py_eq s_old s_new then Done st
     else eval_in st (sget new_org ''Name'' JNull) (\<lambda>n.
          eval_in st (sget old_org ''Status'' JNull) (\<lambda>os.
          eval_in st (sget new_org ''Status'' JNull) (\<lambda>ns.
          eval_in st (sget new_org ''LastChangeDate'' JNull) (\<lambda>d.
          Done (append_change
                  \<lparr>ctype = ''status_change'', ods_code = code, name = n, date_of_change = d,
                   detail = StatusDetail os ns\<rparr> st)))))))"

definition pcn_change :: "string \<Rightarrow> json \<Rightarrow> json \<Rightarrow> differ_state \<Rightarrow> outcome" where
  "pcn_change code old_org new_org st =
     eval_in st (get_current_pcn old_org) (\<lambda>old_p.
     eval_in st (get_current_pcn new_org) (\<lambda>new_p.
     if py_eq old_p new_p then Done st
     else eval_in st (sget new_org ''Name'' JNull) (\<lambda>n.
          eval_in st (get_pcn_name (old_data st) old_p) (\<lambda>old_n.
          eval_in st (get_pcn_name (new_data st) new_p) (\<lambda>new_n.
          eval_in st (sget new_org ''LastChangeDate'' JNull) (\<lambda>d.
          Done (append_change
                  \<lparr>ctype = ''pcn_change'', ods_code = code, name = n, date_of_change = d,
                   detail = PcnDetail old_p old_n new_p new_n\<rparr> st)))))))"

text \<open>The body of the loop of \<^verbatim>\<open>detect_practice_changes\<close> for one code.\<close>

definition practice_step :: "json \<Rightarrow> json \<Rightarrow> string \<Rightarrow> differ_state \<Rightarrow> outcome" where
  "practice_step old_orgs new_orgs code st =
     eval_in st (org_of old_orgs code) (\<lambda>old_org.
     eval_in st (org_of new_orgs code) (\<lambda>new_org.
     eval_in st (is_practice new_org) (\<lambda>practice.
     if \<not> practice then Done st
     else if \<not> py_truthy old_org then
       eval_in st (simple_change ''new_practice'' code new_org) (\<lambda>c. Done (append_change c st))
     else if \<not> py_truthy new_org then
       eval_in st (simple_change ''closed_practice'' code old_org) (\<lambda>c. Done (append_change c st))
     else seq (status_change code old_org new_org st) (pcn_change code old_org new_org))))"

text \<open>The body of the loop of \<^verbatim>\<open>detect_pcn_changes\<close> for one code.\<close>

definition pcn_step :: "json \<Rightarrow> json \<Rightarrow> string \<Rightarrow> differ_state \<Rightarrow> outcome" where
  "pcn_step old_orgs new_orgs code st =
     eval_in st (org_of old_orgs code) (\<lambda>old_org.
     eval_in st (org_of new_orgs code) (\<lambda>new_org.
     eval_in st (is_pcn new_org) (\<lambda>pcn.
     if \<not> pcn then Done st
     else if \<not> py_truthy old_org then
       eval_in st (simple_change ''new_pcn'' code new_org) (\<lambda>c. Done (append_change c st))
     else if \<not> py_truthy new_org then
       eval_in st (simple_change ''closed_pcn'' code old_org) (\<lambda>c. Done (append_change c st))
     else status_change code old_org new_org st)))"

text \<open>\<^verbatim>\<open>for ods_code in all_ods_codes\<close>, over the codes in the order the set gives them.\<close>

fun for_codes :: "(string \<Rightarrow> differ_state \<Rightarrow> outcome) \<Rightarrow> string list \<Rightarrow> differ_state \<Rightarrow> outcome" where
  "for_codes body [] st = Done st"
| "for_codes body (c # cs) st = seq (body c st) (for_codes body cs)"

text \<open>
  \<^verbatim>\<open>set(old_orgs.keys()) | set(new_orgs.keys())\<close>. Python does not fix the order in
  which a set of strings is iterated, so the detection functions take the order as their
  first argument; \<open>iteration_order\<close> says that it is an order of that set.
\<close>

definition all_ods_codes :: "json \<Rightarrow> json \<Rightarrow> error + string set" where
  "all_ods_codes old_orgs new_orgs =
     ebind (dict_keys old_orgs) (\<lambda>ko.
     ebind (dict_keys new_orgs) (\<lambda>kn. Inr (set ko \<union> set kn)))"

definition iteration_order :: "string list \<Rightarrow> json \<Rightarrow> json \<Rightarrow> bool" where
  "iteration_order codes old new =
     (distinct codes \<and>
      ebind (sget old ''organisations'' (JObj [])) (\<lambda>old_orgs.
      ebind (sget new ''organisations'' (JObj [])) (\<lambda>new_orgs.
        all_ods_codes old_orgs new_orgs)) = Inr (set codes))"

definition run_detection ::
  "(json \<Rightarrow> json \<Rightarrow> string \<Rightarrow> differ_state \<Rightarrow> outcome) \<Rightarrow> string list \<Rightarrow> json \<Rightarrow> json \<Rightarrow> outcome" where
  "run_detection step codes old new =
     (let st = \<lparr>old_data = old, new_data = new, changes = []\<rparr> in
      eval_in st (sget old ''organisations'' (JObj [])) (\<lambda>old_orgs.
      eval_in st (sget new ''organisations'' (JObj [])) (\<lambda>new_orgs.
      eval_in st (all_ods_codes old_orgs new_orgs) (\<lambda>_.
      for_codes (step old_orgs new_orgs) codes st))))"

definition detect_practice_changes :: "string list \<Rightarrow> json \<Rightarrow> json \<Rightarrow> error + change list" where
  "detect_practice_changes codes old new = returned (run_detection practice_step codes old new)"

definition detect_pcn_changes :: "string list \<Rightarrow> json \<Rightarrow> json \<Rightarrow> error + change list" where
  "detect_pcn_changes codes old new = returned (run_detection pcn_step codes old new)"

section \<open>track\_changes.py: the change history\<close>

text \<open>The dict \<^verbatim>\<open>changes\<close> that \<^verbatim>\<open>main\<close> passes to \<^verbatim>\<open>update_tracked_changes\<close>.\<close>

record run_changes =
  practice_changes :: "change list"
  pcn_changes :: "change list"

record practice_summary =
  p_total :: nat
  p_new :: nat
  p_closed :: nat
  p_status :: nat
  p_pcn :: nat

record pcn_summary =
  n_total :: nat
  n_new :: nat
  n_closed :: nat
  n_status :: nat

record summary =
  total_changes :: nat
  practice_summary :: practice_summary
  pcn_summary :: pcn_summary

record entry =
  date :: string
  data_file :: string
  summary :: summary
  entry_practice_changes :: "change list"
  entry_pcn_changes :: "change list"

text \<open>\<^verbatim>\<open>len([c for c in cs if c["type"] == ty])\<close>.\<close>

definition count_type :: "string \<Rightarrow> change list \<Rightarrow> nat" where
  "count_type ty cs = length (filter (\<lambda>c. ctype c = ty) cs)"

definition make_summary :: "run_changes \<Rightarrow> summary" where
  "make_summary ch =
     \<lparr>total_changes = length (practice_changes ch) + length (pcn_changes ch),
      practice_summary =
        \<lparr>p_total = length (practice_changes ch),
         p_new = count_type ''new_practice'' (practice_changes ch),
         p_closed = count_type ''closed_practice'' (practice_changes ch),
         p_status = count_type ''status_change'' (practice_changes ch),
         p_pcn = count_type ''pcn_change'' (practice_changes ch)\<rparr>,
      pcn_summary =
        \<lparr>n_total = length (pcn_changes ch),
         n_new = count_type ''new_pcn'' (pcn_changes ch),
         n_closed = count_type ''closed_pcn'' (pcn_changes ch),
         n_status = count_type ''status_change'' (pcn_changes ch)\<rparr>\<rparr>"

text \<open>\<^verbatim>\<open>os.path.basename\<close>: what follows the last slash.\<close>

definition basename :: "string \<Rightarrow> string" where
  "basename path = rev (takeWhile (\<lambda>c. c \<noteq> CHR ''/'') (rev path))"

text \<open>
  The history file \<^verbatim>\<open>data/tracked_changes.json\<close> is \<open>None\<close> while it does not exist
  and otherwise holds the list under its key \<^verbatim>\<open>changes\<close>. \<open>today\<close> is the date
  \<^verbatim>\<open>datetime.now()\<close> gives, formatted. The function returns the file after the call.
  Reading and writing the file are taken to succeed.
\<close>

definition update_tracked_changes ::
  "run_changes \<Rightarrow> string \<Rightarrow> string \<Rightarrow> entry list option \<Rightarrow> entry list option" where
  "update_tracked_changes ch current_file today file =
     (let tracked_changes = (case file of None \<Rightarrow> [] | Some h \<Rightarrow> h) in
      if practice_changes ch \<noteq> [] \<or> pcn_changes ch \<noteq> [] then
        Some (tracked_changes @
              [\<lparr>date = today, data_file = basename current_file, summary = make_summary ch,
                entry_practice_changes = practice_changes ch,
                entry_pcn_changes = pcn_changes ch\<rparr>])
      else file)"

text \<open>The history a file holds.\<close>

definition history :: "entry list option \<Rightarrow> entry list" where
  "history file = (case file of None \<Rightarrow> [] | Some h \<Rightarrow> h)"

section \<open>main.py: current network in the report\<close>

text \<open>
  Python's \<^verbatim>\<open>>\<close> on loaded values: numbers by value (nothing is greater than NaN
  and NaN is greater than nothing), strings and lists lexicographically, anything else
  raises \<^verbatim>\<open>TypeError\<close>. A string is its UTF-8 bytes, whose order is the order of the
  code points.
\<close>

fun num_gt :: "number \<Rightarrow> number \<Rightarrow> bool" where
  "num_gt NaN b = False"
| "num_gt a NaN = False"
| "num_gt a PosInf = False"
| "num_gt PosInf b = True"
| "num_gt NegInf b = False"
| "num_gt a NegInf = True"
| "num_gt (Finite x) (Finite y) = (y < x)"

fun str_gt :: "string \<Rightarrow> string \<Rightarrow> bool" where
  "str_gt [] t = False"
| "str_gt (a # s) [] = True"
| "str_gt (a # s) (b # t) = (if a = b then str_gt s t else (of_char b :: nat) < of_char a)"

fun num_of :: "json \<Rightarrow> number option" where
  "num_of (JBool b) = Some (Finite (if b then 1 else 0))"
| "num_of (JNum n) = Some n"
| "num_of _ = None"

fun py_gt :: "json \<Rightarrow> json \<Rightarrow> error + bool"
  and list_gt :: "json list \<Rightarrow> json list \<Rightarrow> error + bool" where
  "py_gt (JStr s) (JStr t) = Inr (str_gt s t)"
| "py_gt (JArr xs) (JArr ys) = list_gt xs ys"
| "py_gt a b =
     (case num_of a of
        None \<Rightarrow> Inl TypeError
      | Some x \<Rightarrow> (case num_of b of None \<Rightarrow> Inl TypeError | Some y \<Rightarrow> Inr (num_gt x y)))"
| "list_gt [] ys = Inr False"
| "list_gt (x # xs) [] = Inr True"
| "list_gt (x # xs) (y # ys) = (if item_eq x y then list_gt xs ys else py_gt x y)"

text \<open>\<^verbatim>\<open>x in pcns\<close> for a dict with string keys, given by its keys.\<close>

fun py_in :: "json \<Rightarrow> string list \<Rightarrow> error + bool" where
  "py_in (JStr s) ks = Inr (s \<in> set ks)"
| "py_in (JArr xs) ks = Inl TypeError"
| "py_in (JObj kvs) ks = Inl TypeError"
| "py_in _ ks = Inr False"

text \<open>\<^verbatim>\<open>[x for x in xs if f(x)]\<close>.\<close>

fun py_filter :: "('a \<Rightarrow> error + bool) \<Rightarrow> 'a list \<Rightarrow> error + 'a list" where
  "py_filter f [] = Inr []"
| "py_filter f (x # xs) =
     ebind (f x) (\<lambda>b. ebind (py_filter f xs) (\<lambda>ys. Inr (if b then x # ys else ys)))"

text \<open>\<^verbatim>\<open>next((d.get(k) for d in ds if isinstance(d, dict)), None)\<close>.\<close>

fun first_dict_field :: "string \<Rightarrow> json list \<Rightarrow> json" where
  "first_dict_field k [] = JNull"
| "first_dict_field k (JObj kvs # ds) = (case map_of kvs k of None \<Rightarrow> JNull | Some v \<Rightarrow> v)"
| "first_dict_field k (d # ds) = first_dict_field k ds"

text \<open>\<^verbatim>\<open>next((d.get(k) for d in ds if d.get("Type") == ty), None)\<close>.\<close>

fun first_of_type :: "string \<Rightarrow> string \<Rightarrow> json list \<Rightarrow> error + json" where
  "first_of_type ty k [] = Inr JNull"
| "first_of_type ty k (d # ds) =
     ebind (sget d ''Type'' JNull) (\<lambda>t.
     if py_eq t (JStr ty) then sget d k JNull else first_of_type ty k ds)"

text \<open>
  The first loop of \<^verbatim>\<open>create_practice_pcn_report\<close> fills the dict \<^verbatim>\<open>pcns\<close>, keyed
  by code; \<open>pcn_entry\<close> evaluates what the loop evaluates for one organisation, with the
  exceptions it can raise, and gives the \<^verbatim>\<open>name\<close> stored for a network (\<open>None\<close> for
  an organisation that is not one); \<open>identify_pcns\<close> gives the keys of \<^verbatim>\<open>pcns\<close>.
\<close>

definition report_is_pcn :: "json \<Rightarrow> error + bool" where
  "report_is_pcn org_info =
     ebind (sget org_info ''Roles'' (JObj [])) (\<lambda>rs.
     ebind (sget rs ''Role'' (JArr [])) (\<lambda>r.
     py_any (\<lambda>role. ebind (sget role ''id'' JNull) (\<lambda>i.
               if py_eq i (JStr ''RO272'')
               then ebind (sget role ''primaryRole'' (JBool False)) (\<lambda>p. Inr (py_truthy p))
               else Inr False)) (as_list r)))"

definition pcn_entry :: "json \<Rightarrow> error + json option" where
  "pcn_entry org_data =
     ebind (sget org_data ''Organisation'' (JObj [])) (\<lambda>org_info.
     ebind (report_is_pcn org_info) (\<lambda>pcn.
     if \<not> pcn then Inr None
     else ebind (sget org_info ''GeoLoc'' (JObj [])) (\<lambda>geo.
          ebind (sget geo ''Location'' (JObj [])) (\<lambda>location.
          ebind (sget org_info ''Date'' (JArr [])) (\<lambda>ds.
          ebind (sget org_info ''Name'' JNull) (\<lambda>n.
          ebind (first_of_type ''Operational'' ''Start'' (as_list ds)) (\<lambda>_.
          ebind (first_of_type ''Operational'' ''End'' (as_list ds)) (\<lambda>_.
          ebind (first_of_type ''Legal'' ''Start'' (as_list ds)) (\<lambda>_.
          ebind (first_of_type ''Legal'' ''End'' (as_list ds)) (\<lambda>_.
          ebind (sget location ''AddrLn1'' JNull) (\<lambda>_.
          Inr (Some n))))))))))))"

fun identify_pcns :: "(string \<times> json) list \<Rightarrow> error + string list" where
  "identify_pcns [] = Inr []"
| "identify_pcns ((code, org_data) # items) =
     ebind (pcn_entry org_data) (\<lambda>e.
     ebind (identify_pcns items) (\<lambda>ks.
     Inr (case e of None \<Rightarrow> ks | Some n \<Rightarrow> code # ks)))"

text \<open>
  The second loop, for one practice (\<^verbatim>\<open>org_info\<close>): the variables
  \<^verbatim>\<open>current_pcn\<close> and \<^verbatim>\<open>current_pcn_date\<close> as the relationships with id
  \<^verbatim>\<open>RE8\<close> are scanned. The lists \<^verbatim>\<open>pcn_history\<close> and
  \<^verbatim>\<open>member_practices\<close> that the loop also fills are read nowhere in it.
\<close>

record resolution =
  current_pcn :: json
  current_pcn_date :: json

definition report_step :: "string list \<Rightarrow> json \<Rightarrow> resolution \<Rightarrow> error + resolution" where
  "report_step pcns rel res =
     ebind (sget rel ''Target'' (JObj [])) (\<lambda>target.
     ebind (sget target ''OrgId'' (JObj [])) (\<lambda>org_id.
     ebind (sget org_id ''extension'' JNull) (\<lambda>target_ods.
     ebind (py_in target_ods pcns) (\<lambda>known.
     if \<not> known then Inr res
     else ebind (sget rel ''Date'' (JArr [])) (\<lambda>ds.
          let rel_dates = as_list ds;
              start_date = first_dict_field ''Start'' rel_dates;
              end_date = first_dict_field ''End'' rel_dates
          in ebind (sget rel ''Status'' JNull) (\<lambda>status.
             if py_eq status (JStr ''Active'') \<and> \<not> py_truthy end_date then
               (if \<not> py_truthy (current_pcn res) then
                  Inr \<lparr>current_pcn = target_ods, current_pcn_date = start_date\<rparr>
                else if \<not> py_truthy start_date then Inr res
                else ebind (py_gt start_date (current_pcn_date res)) (\<lambda>later.
                     Inr (if later
                          then \<lparr>current_pcn = target_ods, current_pcn_date = start_date\<rparr>
                          else res)))
             else Inr res))))))"

fun report_loop :: "string list \<Rightarrow> json list \<Rightarrow> resolution \<Rightarrow> error + resolution" where
  "report_loop pcns [] res = Inr res"
| "report_loop pcns (rel # rels) res = ebind (report_step pcns rel res) (report_loop pcns rels)"

definition report_current_pcn :: "string list \<Rightarrow> json \<Rightarrow> error + json" where
  "report_current_pcn pcns org_info =
     ebind (sget org_info ''Rels'' (JObj [])) (\<lambda>rs.
     ebind (sget rs ''Rel'' (JArr [])) (\<lambda>r.
     ebind (py_filter (\<lambda>rel. ebind (sget rel ''id'' JNull) (\<lambda>i. Inr (py_eq i (JStr ''RE8''))))
                      (as_list r)) (\<lambda>pcn_rels.
     ebind (report_loop pcns pcn_rels \<lparr>current_pcn = JNull, current_pcn_date = JNull\<rparr>) (\<lambda>res.
     Inr (current_pcn res)))))"

section \<open>download\_data.py: current network in the practice row\<close>

text \<open>
  \<^verbatim>\<open>next((rel for rel in rels if ...), None)\<close> with the condition of
  \<^verbatim>\<open>get_current_pcn\<close>, which \<^verbatim>\<open>extract_practice_data\<close> repeats.
\<close>

fun first_match :: "json list \<Rightarrow> error + json option" where
  "first_match [] = Inr None"
| "first_match (rel # rels) =
     (case pcn_rel_match rel of
        Inl e \<Rightarrow> Inl e
      | Inr True \<Rightarrow> Inr (Some rel)
      | Inr False \<Rightarrow> first_match rels)"

definition extract_is_practice :: "json \<Rightarrow> error + bool" where
  "extract_is_practice org_info =
     ebind (sget org_info ''Roles'' (JObj [])) (\<lambda>rs.
     ebind (sget rs ''Role'' (JArr [])) (\<lambda>r.
     py_any (\<lambda>role. ebind (sget role ''id'' JNull) (\<lambda>i. Inr (py_eq i (JStr ''RO76''))))
            (as_list r)))"

text \<open>
  The value under \<^verbatim>\<open>Current PCN Code\<close> in the row \<^verbatim>\<open>extract_practice_data\<close>
  returns; \<open>None\<close> where the function returns \<^verbatim>\<open>None\<close> (not a practice, or an
  exception anywhere in its body, which it catches).
\<close>

definition extract_practice_pcn_code :: "json \<Rightarrow> error + json option" where
  "extract_practice_pcn_code org_data =
     try_except
       (ebind (sget org_data ''Organisation'' (JObj [])) (\<lambda>org_info.
        ebind (extract_is_practice org_info) (\<lambda>practice.
        if \<not> practice then Inr None
        else ebind (sget org_info ''Date'' (JArr [])) (\<lambda>ds.
             ebind (sget org_info ''Rels'' (JObj [])) (\<lambda>rs.
             ebind (sget rs ''Rel'' (JArr [])) (\<lambda>rels.
             ebind (first_match (as_list rels)) (\<lambda>pcn_rel.
             ebind (sget org_info ''GeoLoc'' (JObj [])) (\<lambda>geo.
             ebind (sget geo ''Location'' (JObj [])) (\<lambda>location.
             ebind (sget org_info ''OrgId'' (JObj [])) (\<lambda>org_id.
             ebind (sget org_id ''extension'' JNull) (\<lambda>_.
             ebind (first_of_type ''Operational'' ''Start'' (as_list ds)) (\<lambda>_.
             ebind (first_of_type ''Operational'' ''End'' (as_list ds)) (\<lambda>_.
             ebind (sget location ''AddrLn1'' JNull) (\<lambda>_.
             ebind (case pcn_rel of
                      None \<Rightarrow> Inr JNull
                    | Some rel \<Rightarrow> if py_truthy rel then target_code rel else Inr JNull) (\<lambda>code.
             Inr (Some code))))))))))))))))
       (\<lambda>e. Inr None)"

section \<open>Notions used in the statements\<close>

text \<open>The Organisation record a snapshot holds under a code, as both passes read it.\<close>

definition lookup_org :: "json \<Rightarrow> string \<Rightarrow> error + json" where
  "lookup_org data code = ebind (sget data ''organisations'' (JObj [])) (\<lambda>orgs. org_of orgs code)"

text \<open>
  \<open>grows code st st'\<close>: from \<open>st\<close> to \<open>st'\<close> the snapshots are the same and the list
  \<^verbatim>\<open>changes\<close> has only gained records of \<open>code\<close>.
\<close>

definition grows :: "string \<Rightarrow> differ_state \<Rightarrow> differ_state \<Rightarrow> bool" where
  "grows code st st' \<longleftrightarrow>
     old_data st' = old_data st \<and> new_data st' = new_data st \<and>
     (\<exists>cs. changes st' = changes st @ cs \<and> list_all (\<lambda>c. ods_code c = code) cs)"

text \<open>A record that is of neither "closed" type.\<close>

definition not_closed :: "change \<Rightarrow> bool" where
  "not_closed c = (ctype c \<noteq> ''closed_practice'' \<and> ctype c \<noteq> ''closed_pcn'')"

section \<open>Example records\<close>

text \<open>
  Records in the shape the directory returns: an organisation with a name, a status, a
  role list and a relationship list; an open-ended Active relationship to a network; the
  same with an end date; and one whose \<^verbatim>\<open>Date\<close> is a single object, not a list.
\<close>

definition ex_org :: "string \<Rightarrow> string \<Rightarrow> json \<Rightarrow> json \<Rightarrow> json" where
  "ex_org nm status roles rels =
     JObj [(''Name'', JStr nm), (''Status'', JStr status),
           (''LastChangeDate'', JStr ''2024-03-01''),
           (''Roles'', JObj [(''Role'', roles)]),
           (''Rels'', JObj [(''Rel'', rels)])]"

definition practice_role :: json where
  "practice_role = JObj [(''id'', JStr ''RO76''), (''primaryRole'', JBool True)]"

definition pcn_role :: json where
  "pcn_role = JObj [(''id'', JStr ''RO272''), (''primaryRole'', JBool True)]"

definition ex_target :: "string \<Rightarrow> json" where
  "ex_target code =
     JObj [(''OrgId'', JObj [(''extension'', JStr code)]),
           (''PrimaryRoleId'', JObj [(''id'', JStr ''RO272'')])]"

definition ex_rel :: "string \<Rightarrow> string \<Rightarrow> json" where
  "ex_rel code start =
     JObj [(''id'', JStr ''RE8''), (''Status'', JStr ''Active''),
           (''Date'', JArr [JObj [(''Type'', JStr ''Operational''), (''Start'', JStr start)]]),
           (''Target'', ex_target code)]"

definition ended_rel :: "string \<Rightarrow> json" where
  "ended_rel code =
     JObj [(''id'', JStr ''RE8''), (''Status'', JStr ''Active''),
           (''Date'', JArr [JObj [(''Type'', JStr ''Operational''), (''Start'', JStr ''2019-07-01''),
                                  (''End'', JStr ''2020-03-31'')]]),
           (''Target'', ex_target code)]"

definition single_date_rel :: "string \<Rightarrow> json" where
  "single_date_rel code =
     JObj [(''id'', JStr ''RE8''), (''Status'', JStr ''Active''),
           (''Date'', JObj [(''Type'', JStr ''Operational''), (''Start'', JStr ''2019-07-01'')]),
           (''Target'', ex_target code)]"

definition ex_items :: "(string \<times> json) list \<Rightarrow> (string \<times> json) list" where
  "ex_items orgs = map (\<lambda>(code, org). (code, JObj [(''Organisation'', org)])) orgs"

definition ex_snapshot :: "(string \<times> json) list \<Rightarrow> json" where
  "ex_snapshot orgs =
     JObj [(''metadata'', JObj [(''icb_code'', JStr ''93C'')]),
           (''organisations'', JObj (ex_items orgs))]"

definition ex_practice :: "json \<Rightarrow> json" where
  "ex_practice rels = ex_org ''Elm Surgery'' ''Active'' (JArr [practice_role]) rels"

definition ex_pcn :: "string \<Rightarrow> json" where
  "ex_pcn nm = ex_org nm ''Active'' (JArr [pcn_role]) (JArr [])"

text \<open>A practice and a network that the later snapshot no longer has.\<close>

definition closed_old :: json where
  "closed_old = ex_snapshot [(''P1'', ex_practice (JArr [])), (''N1'', ex_pcn ''North Network'')]"

definition closed_new :: json where
  "closed_new = ex_snapshot []"

text \<open>A practice with two open-ended Active relationships, to networks A and B.\<close>

definition two_networks :: "json list \<Rightarrow> (string \<times> json) list" where
  "two_networks rels =
     [(''P1'', ex_practice (JArr rels)),
      (''A'', ex_pcn ''Network A''), (''B'', ex_pcn ''Network B'')]"

text \<open>A new practice whose \<^verbatim>\<open>Role\<close> is a single object, next to a well-formed one.\<close>

definition single_role_new :: json where
  "single_role_new =
     ex_snapshot [(''P1'', ex_org ''Elm Surgery'' ''Active'' practice_role (JArr [])),
                  (''P2'', ex_practice (JArr []))]"

text \<open>A practice that gains a relationship to a code the snapshot does not have.\<close>

definition dangling_old :: json where
  "dangling_old = ex_snapshot [(''P1'', ex_practice (JArr []))]"

definition dangling_new :: json where
  "dangling_new = ex_snapshot [(''P1'', ex_practice (JArr [ex_rel ''X9'' ''2022-04-01'']))]"

text \<open>A practice that moves from network A to network B, its status unchanged.\<close>

definition moved_old :: json where
  "moved_old = ex_snapshot (two_networks [ex_rel ''A'' ''2020-01-01''])"

definition moved_new :: json where
  "moved_new = ex_snapshot (two_networks [ended_rel ''A'', ex_rel ''B'' ''2021-06-01''])"

text \<open>The records of a run: one new practice, one status change, one new network.\<close>

definition ex_run :: run_changes where
  "ex_run =
     \<lparr>practice_changes =
        [\<lparr>ctype = ''new_practice'', ods_code = ''P1'', name = JStr ''Elm Surgery'',
          date_of_change = JStr ''2024-03-01'', detail = NoDetail\<rparr>,
         \<lparr>ctype = ''status_change'', ods_code = ''P2'', name = JStr ''Oak Surgery'',
          date_of_change = JStr ''2024-03-02'',
          detail = StatusDetail (JStr ''Active'') (JStr ''Inactive'')\<rparr>],
      pcn_changes =
        [\<lparr>ctype = ''new_pcn'', ods_code = ''N1'', name = JStr ''North Network'',
          date_of_change = JStr ''2024-03-01'', detail = NoDetail\<rparr>]\<rparr>"

section \<open>Snapshots the passes can read\<close>

text \<open>A value that holds no NaN.\<close>

fun nan_free :: "json \<Rightarrow> bool" where
  "nan_free (JNum n) = (n \<noteq> NaN)"
| "nan_free (JArr xs) = list_all nan_free xs"
| "nan_free (JObj kvs) = list_all nan_free (map snd kvs)"
| "nan_free _ = True"

fun is_dict :: "json \<Rightarrow> bool" where
  "is_dict (JObj kvs) = True"
| "is_dict _ = False"

text \<open>
  An Organisation record is readable when it is a dict whose \<^verbatim>\<open>Roles\<close>, if it has
  the key, is a dict whose \<^verbatim>\<open>Role\<close>, if it has the key, is a list of dicts. A
  snapshot is readable when it is a dict whose \<^verbatim>\<open>organisations\<close>, if it has the
  key, is a dict of dicts, the \<^verbatim>\<open>Organisation\<close> of each, if it has the key, being a
  readable record.
\<close>

definition readable_org :: "json \<Rightarrow> bool" where
  "readable_org org =
     (case org of
        JObj kvs \<Rightarrow>
          (case map_of kvs ''Roles'' of
             None \<Rightarrow> True
           | Some (JObj rs) \<Rightarrow>
               (case map_of rs ''Role'' of
                  None \<Rightarrow> True
                | Some (JArr roles) \<Rightarrow> list_all is_dict roles
                | Some _ \<Rightarrow> False)
           | Some _ \<Rightarrow> False)
      | _ \<Rightarrow> False)"

definition readable_entry :: "json \<Rightarrow> bool" where
  "readable_entry entry =
     (case entry of
        JObj e \<Rightarrow> (case map_of e ''Organisation'' of None \<Rightarrow> True | Some org \<Rightarrow> readable_org org)
      | _ \<Rightarrow> False)"

definition readable_snapshot :: "json \<Rightarrow> bool" where
  "readable_snapshot data =
     (case data of
        JObj tkvs \<Rightarrow>
          (case map_of tkvs ''organisations'' of
             None \<Rightarrow> True
           | Some (JObj orgs) \<Rightarrow> list_all readable_entry (map snd orgs)
           | Some _ \<Rightarrow> False)
      | _ \<Rightarrow> False)"

text \<open>
  The relationship entries the loop of \<^verbatim>\<open>get_current_pcn\<close> scans: the value of
  \<^verbatim>\<open>Rels.Rel\<close>, wrapped in a list when it is not one; none when the value cannot be
  read.
\<close>

definition scanned_rels :: "json \<Rightarrow> json list" where
  "scanned_rels org_data =
     (case ebind (sget org_data ''Rels'' (JObj [])) (\<lambda>rs. sget rs ''Rel'' (JArr [])) of
        Inl e \<Rightarrow> []
      | Inr rels \<Rightarrow> as_list rels)"

text \<open>A relationship whose target code is a number.\<close>

definition numeric_code_rel :: json where
  "numeric_code_rel =
     JObj [(''id'', JStr ''RE8''), (''Status'', JStr ''Active''),
           (''Date'', JArr [JObj [(''Type'', JStr ''Operational''), (''Start'', JStr ''2020-01-01'')]]),
           (''Target'', JObj [(''OrgId'', JObj [(''extension'', JNum (Finite 5))]),
                              (''PrimaryRoleId'', JObj [(''id'', JStr ''RO272'')])])]"

text \<open>A practice whose status is NaN.\<close>

definition nan_status_snapshot :: json where
  "nan_status_snapshot =
     ex_snapshot [(''P1'', JObj [(''Name'', JStr ''Elm Surgery''), (''Status'', JNum NaN),
                                 (''LastChangeDate'', JStr ''2024-03-01''),
                                 (''Roles'', JObj [(''Role'', JArr [practice_role])])])]"

text \<open>
  A practice with open-ended Active relationships to network A (from 2020) and, listed
  after it, to network B (from 2021), later to network C (from 2022) in place of B.
\<close>

definition hidden_orgs :: "json list \<Rightarrow> (string \<times> json) list" where
  "hidden_orgs rels =
     [(''P1'', ex_practice (JArr rels)), (''A'', ex_pcn ''Network A''),
      (''B'', ex_pcn ''Network B''), (''C'', ex_pcn ''Network C'')]"

definition hidden_old :: json where
  "hidden_old = ex_snapshot (hidden_orgs [ex_rel ''A'' ''2020-01-01'', ex_rel ''B'' ''2021-06-01''])"

definition hidden_new :: json where
  "hidden_new = ex_snapshot (hidden_orgs [ex_rel ''A'' ''2020-01-01'', ex_rel ''C'' ''2022-04-01''])"

section \<open>Python equality is reflexive except on NaN\<close>

lemma map_of_in_keys:
  "k \<in> set (map fst kvs) \<Longrightarrow> \<exists>v. map_of kvs k = Some v \<and> (k, v) \<in> set kvs"
  by (induction kvs) auto

lemma num_eq_refl: "n \<noteq> NaN \<Longrightarrow> num_eq n n"
  by (cases n) auto

lemma py_eq_refl_or_NaN: "py_eq x x \<or> x = JNum NaN"
proof (induction x)
  case (JNum n)
  then show ?case by (cases n) auto
next
  case (JArr xs)
  then have "list_all2 (\<lambda>x y. (x = JNum NaN \<and> y = JNum NaN) \<or> py_eq x y) xs xs"
    by (intro list.rel_refl_strong) auto
  then show ?case by simp
next
  case (JObj kvs)
  have "case map_of kvs k of None \<Rightarrow> False
        | Some v \<Rightarrow> (case map_of kvs k of None \<Rightarrow> False
                      | Some w \<Rightarrow> (v = JNum NaN \<and> w = JNum NaN) \<or> py_eq v w)"
    if "k \<in> set (map fst kvs)" for k
  proof -
    from map_of_in_keys[OF that] obtain v where v: "map_of kvs k = Some v" "(k, v) \<in> set kvs"
      by blast
    from JObj[OF v(2)] have "py_eq v v \<or> v = JNum NaN" by simp
    with v(1) show ?thesis by auto
  qed
  then show ?case by (simp add: list_all_iff)
qed simp_all

lemma py_eq_refl: "x \<noteq> JNum NaN \<Longrightarrow> py_eq x x"
  using py_eq_refl_or_NaN[of x] by simp

section \<open>Values without NaN\<close>

lemma nan_free_not_NaN: "nan_free x \<Longrightarrow> x \<noteq> JNum NaN"
  by auto

lemma nan_free_map_of: "nan_free (JObj kvs) \<Longrightarrow> map_of kvs k = Some v \<Longrightarrow> nan_free v"
  by (auto simp: list_all_iff dest!: map_of_SomeD)

lemma nan_free_dict_get:
  "nan_free obj \<Longrightarrow> nan_free d \<Longrightarrow> dict_get obj k d = Inr v \<Longrightarrow> nan_free v"
  by (cases "(obj, k, d)" rule: dict_get.cases)
     (auto simp del: nan_free.simps(3) dest: nan_free_map_of split: option.splits)

lemma nan_free_org_of: "nan_free orgs \<Longrightarrow> org_of orgs code = Inr org \<Longrightarrow> nan_free org"
  by (auto simp: org_of_def ebind_def split: sum.splits dest!: nan_free_dict_get[rotated 2])

lemma nan_free_target_code: "nan_free rel \<Longrightarrow> target_code rel = Inr v \<Longrightarrow> nan_free v"
  by (auto simp: target_code_def ebind_def split: sum.splits dest!: nan_free_dict_get[rotated 2])

lemma nan_free_first_pcn: "list_all nan_free rels \<Longrightarrow> first_pcn rels = Inr v \<Longrightarrow> nan_free v"
  by (induction rels) (auto split: sum.splits bool.splits dest: nan_free_target_code)

lemma nan_free_as_list: "nan_free x \<Longrightarrow> list_all nan_free (as_list x)"
  by (cases x) auto

lemma nan_free_get_current_pcn:
  "nan_free org \<Longrightarrow> get_current_pcn org = Inr v \<Longrightarrow> nan_free v"
  by (auto simp: get_current_pcn_def try_except_def ebind_def split: sum.splits
      dest!: nan_free_dict_get[rotated 2] dest: nan_free_first_pcn nan_free_as_list)

section \<open>What one pass of the loop does to the state\<close>

lemma grows_refl: "grows code st st"
  by (simp add: grows_def)

lemma grows_append: "ods_code c = code \<Longrightarrow> grows code st (append_change c st)"
  by (simp add: grows_def append_change_def)

lemma grows_trans: "grows code st st' \<Longrightarrow> grows code st' st'' \<Longrightarrow> grows code st st''"
  by (auto simp: grows_def)

lemma simple_change_code:
  "simple_change ty code org = Inr c \<Longrightarrow> ods_code c = code \<and> ctype c = ty"
  by (auto simp: simple_change_def ebind_def split: sum.splits)

lemma status_change_grows: "grows code st (state_of (status_change code old_org new_org st))"
  by (auto simp: status_change_def eval_in_def grows_refl grows_append split: sum.splits)

lemma pcn_change_grows: "grows code st (state_of (pcn_change code old_org new_org st))"
  by (auto simp: pcn_change_def eval_in_def grows_refl grows_append split: sum.splits)

lemma seq_grows:
  assumes "grows code st (state_of r)" "\<And>s. grows code s (state_of (k s))"
  shows "grows code st (state_of (seq r k))"
  using assms by (cases r) (auto simp: seq_def intro: grows_trans)

lemma practice_step_grows: "grows code st (state_of (practice_step old_orgs new_orgs code st))"
  unfolding practice_step_def
  by (auto simp: eval_in_def grows_refl grows_append seq_grows status_change_grows pcn_change_grows
      dest: simple_change_code split: sum.splits)

lemma pcn_step_grows: "grows code st (state_of (pcn_step old_orgs new_orgs code st))"
  unfolding pcn_step_def
  by (auto simp: eval_in_def grows_refl grows_append status_change_grows
      dest: simple_change_code split: sum.splits)

lemma for_codes_grows_frame:
  assumes "\<And>c s. grows c s (state_of (body c s))"
  shows "old_data (state_of (for_codes body cs st)) = old_data st \<and>
         new_data (state_of (for_codes body cs st)) = new_data st"
proof (induction cs arbitrary: st)
  case Nil
  show ?case by simp
next
  case (Cons c cs)
  have g: "grows c st (state_of (body c st))" by (rule assms)
  show ?case
  proof (cases "body c st")
    case (Done st1)
    with g Cons[of st1] show ?thesis by (simp add: seq_def grows_def)
  next
    case (Raised e st1)
    with g show ?thesis by (simp add: seq_def grows_def)
  qed
qed

lemma run_detection_frame:
  assumes "\<And>oo no c s. grows c s (state_of (step oo no c s))"
  shows "old_data (state_of (run_detection step codes old new)) = old \<and>
         new_data (state_of (run_detection step codes old new)) = new"
  using for_codes_grows_frame[of "step oo no" for oo no, OF assms]
  by (auto simp: run_detection_def Let_def eval_in_def split: sum.splits)

section \<open>A class filter that holds needs a non-empty record\<close>

lemma roles_truthy: "roles_of org = Inr (r # rs) \<Longrightarrow> py_truthy org"
  by (cases org; cases "org = JObj []") (auto simp: roles_of_def ebind_def)

lemma py_any_True_nonempty: "py_any f xs = Inr True \<Longrightarrow> xs \<noteq> []"
  by (cases xs) auto

lemma is_practice_truthy: "is_practice org = Inr True \<Longrightarrow> py_truthy org"
  by (cases "roles_of org")
     (auto simp: is_practice_def ebind_def neq_Nil_conv dest!: py_any_True_nonempty roles_truthy)

lemma is_pcn_truthy: "is_pcn org = Inr True \<Longrightarrow> py_truthy org"
  by (cases "roles_of org")
     (auto simp: is_pcn_def ebind_def neq_Nil_conv dest!: py_any_True_nonempty roles_truthy)

section \<open>The records of one code in a completed run\<close>

lemma for_codes_append:
  "for_codes body (xs @ ys) st = seq (for_codes body xs st) (for_codes body ys)"
  by (induction xs arbitrary: st) (auto simp: seq_def split: outcome.splits)

lemma seq_Done: "seq r k = Done st' \<Longrightarrow> \<exists>st1. r = Done st1 \<and> k st1 = Done st'"
  by (cases r) (auto simp: seq_def)

lemma grows_filter_other:
  "grows c st st' \<Longrightarrow> c \<noteq> code \<Longrightarrow>
   filter (\<lambda>r. ods_code r = code) (changes st') = filter (\<lambda>r. ods_code r = code) (changes st)"
  by (auto simp: grows_def list_all_iff filter_empty_conv)

lemma for_codes_filter_other:
  assumes body: "\<And>c s. grows c s (state_of (body c s))"
  shows "code \<notin> set cs \<Longrightarrow> for_codes body cs st = Done st' \<Longrightarrow>
         filter (\<lambda>r. ods_code r = code) (changes st') = filter (\<lambda>r. ods_code r = code) (changes st)"
proof (induction cs arbitrary: st)
  case Nil
  then show ?case by simp
next
  case (Cons c cs)
  from Cons.prems(2) obtain st1 where s1: "body c st = Done st1" "for_codes body cs st1 = Done st'"
    by (auto dest: seq_Done)
  from body[of c st] s1(1) have "grows c st st1" by simp
  with Cons.prems(1) have "filter (\<lambda>r. ods_code r = code) (changes st1)
      = filter (\<lambda>r. ods_code r = code) (changes st)"
    by (auto intro: grows_filter_other)
  with Cons.IH[OF _ s1(2)] Cons.prems(1) show ?case by simp
qed

lemma run_detection_Done:
  assumes "returned (run_detection step codes old new) = Inr cs"
  shows "\<exists>old_orgs new_orgs st'.
           sget old ''organisations'' (JObj []) = Inr old_orgs \<and>
           sget new ''organisations'' (JObj []) = Inr new_orgs \<and>
           for_codes (step old_orgs new_orgs) codes \<lparr>old_data = old, new_data = new, changes = []\<rparr>
             = Done st' \<and> changes st' = cs"
  using assms
  by (auto simp: run_detection_def Let_def eval_in_def split: sum.splits elim!: returned.elims)

lemma membership_step:
  assumes old_org: "org_of old_orgs code = Inr old_org"
    and new_org: "org_of new_orgs code = Inr new_org"
    and present: "py_truthy old_org"
    and practice: "is_practice new_org = Inr True"
    and s1: "sget old_org ''Status'' JNull = Inr s1"
    and s2: "sget new_org ''Status'' JNull = Inr s2"
    and same: "py_eq s1 s2"
    and p1: "get_current_pcn old_org = Inr p1"
    and p2: "get_current_pcn new_org = Inr p2"
    and differs: "\<not> py_eq p1 p2"
    and step: "practice_step old_orgs new_orgs code st = Done st'"
  shows "\<exists>r. changes st' = changes st @ [r] \<and> ods_code r = code \<and> ctype r = ''pcn_change'' \<and>
             old_pcn (detail r) = p1 \<and> new_pcn (detail r) = p2"
proof -
  have t: "py_truthy new_org" using practice by (rule is_practice_truthy)
  have "status_change code old_org new_org st = Done st"
    using s1 s2 same by (simp add: status_change_def eval_in_def)
  with step old_org new_org present practice t
  have "pcn_change code old_org new_org st = Done st'"
    by (simp add: practice_step_def eval_in_def seq_def)
  with p1 p2 differs show ?thesis
    by (auto simp: pcn_change_def eval_in_def append_change_def split: sum.splits)
qed

lemma change_of_first_candidate_reported:
  assumes run: "detect_practice_changes codes old new = Inr cs"
    and codes: "distinct codes" "code \<in> set codes"
    and old_org: "lookup_org old code = Inr old_org"
    and new_org: "lookup_org new code = Inr new_org"
    and present: "py_truthy old_org"
    and practice: "is_practice new_org = Inr True"
    and s1: "sget old_org ''Status'' JNull = Inr s1"
    and s2: "sget new_org ''Status'' JNull = Inr s2"
    and same: "py_eq s1 s2"
    and p1: "get_current_pcn old_org = Inr p1"
    and p2: "get_current_pcn new_org = Inr p2"
    and differs: "\<not> py_eq p1 p2"
  shows "\<exists>r. filter (\<lambda>c. ods_code c = code) cs = [r] \<and> ctype r = ''pcn_change'' \<and>
             old_pcn (detail r) = p1 \<and> new_pcn (detail r) = p2"
proof -
  let ?st0 = "\<lparr>old_data = old, new_data = new, changes = []\<rparr>"
  let ?f = "filter (\<lambda>c. ods_code c = code)"
  from run obtain old_orgs new_orgs stf where
    oo: "sget old ''organisations'' (JObj []) = Inr old_orgs" and
    no: "sget new ''organisations'' (JObj []) = Inr new_orgs" and
    loop: "for_codes (practice_step old_orgs new_orgs) codes ?st0 = Done stf" and
    cs: "changes stf = cs"
    unfolding detect_practice_changes_def by (blast dest: run_detection_Done)
  from codes obtain xs ys where split: "codes = xs @ code # ys" "code \<notin> set xs" "code \<notin> set ys"
    by (auto dest!: split_list)
  from loop split(1) obtain st1 st2 where
    pre: "for_codes (practice_step old_orgs new_orgs) xs ?st0 = Done st1" and
    step: "practice_step old_orgs new_orgs code st1 = Done st2" and
    post: "for_codes (practice_step old_orgs new_orgs) ys st2 = Done stf"
    by (auto simp: for_codes_append dest!: seq_Done)
  have f1: "?f (changes st1) = []"
    using for_codes_filter_other[of "practice_step old_orgs new_orgs" code xs ?st0 st1,
        OF practice_step_grows split(2) pre] by simp
  from old_org oo have o: "org_of old_orgs code = Inr old_org"
    by (simp add: lookup_org_def ebind_def)
  from new_org no have n: "org_of new_orgs code = Inr new_org"
    by (simp add: lookup_org_def ebind_def)
  from membership_step[OF o n present practice s1 s2 same p1 p2 differs step]
  obtain r where r: "changes st2 = changes st1 @ [r]" "ods_code r = code" "ctype r = ''pcn_change''"
    "old_pcn (detail r) = p1" "new_pcn (detail r) = p2" by blast
  have "?f (changes stf) = ?f (changes st2)"
    using for_codes_filter_other[of "practice_step old_orgs new_orgs" code ys st2 stf,
        OF practice_step_grows split(3) post] .
  with r f1 cs show ?thesis by auto
qed

section \<open>The scan of the relationship list\<close>

lemma first_pcn_skip:
  "list_all (\<lambda>r. pcn_rel_match r = Inr False) pre \<Longrightarrow> first_pcn (pre @ rest) = first_pcn rest"
  by (induction pre) auto

lemma count_list_filter: "count_list (map f xs) y = length (filter (\<lambda>x. f x = y) xs)"
  by (induction xs) auto

lemma first_pcn_result:
  "first_pcn rels = Inr v \<Longrightarrow>
   v = JNull \<or> list_ex (\<lambda>rel. pcn_rel_match rel = Inr True \<and> target_code rel = Inr v) rels"
  by (induction rels) (auto split: sum.splits bool.splits)

lemma first_pcn_raises:
  "list_all (\<lambda>r. pcn_rel_match r \<noteq> Inr True) pre \<Longrightarrow> pcn_rel_match rel = Inl e \<Longrightarrow>
   \<exists>e'. first_pcn (pre @ rel # post) = Inl e'"
  by (induction pre) (auto split: sum.splits bool.splits)

lemma get_current_pcn_scanned:
  "get_current_pcn org = try_except (first_pcn (scanned_rels org)) (\<lambda>e. Inr JNull)"
proof (cases "sget org ''Rels'' (JObj [])")
  case (Inl e)
  then show ?thesis
    by (simp add: get_current_pcn_def scanned_rels_def try_except_def ebind_def)
next
  case (Inr rs)
  then show ?thesis
    by (cases "sget rs ''Rel'' (JArr [])")
       (simp_all add: get_current_pcn_def scanned_rels_def try_except_def ebind_def)
qed

section \<open>The practice row and the differ resolve alike\<close>

lemma pcn_rel_match_truthy: "pcn_rel_match rel = Inr True \<Longrightarrow> py_truthy rel"
  by (cases rel; cases "rel = JObj []") (auto simp: pcn_rel_match_def ebind_def)

lemma first_pcn_first_match:
  "first_pcn rels =
     (case first_match rels of
        Inl e \<Rightarrow> Inl e
      | Inr None \<Rightarrow> Inr JNull
      | Inr (Some rel) \<Rightarrow> if py_truthy rel then target_code rel else Inr JNull)"
  by (induction rels) (auto split: sum.splits bool.splits dest: pcn_rel_match_truthy)

lemma extract_agrees_with_differ:
  assumes "extract_practice_pcn_code org_data = Inr (Some code)"
    and "sget org_data ''Organisation'' (JObj []) = Inr org_info"
  shows "get_current_pcn org_info = Inr code"
  using assms
  unfolding extract_practice_pcn_code_def get_current_pcn_def
  by (auto simp: try_except_def ebind_def first_pcn_first_match
      split: sum.splits if_splits option.splits)

section \<open>A code the later snapshot lacks\<close>

lemma absent_from_new_is_skipped:
  assumes "org_of old_orgs code = Inr old_org" "org_of new_orgs code = Inr (JObj [])"
  shows "practice_step old_orgs new_orgs code st = Done st"
    and "pcn_step old_orgs new_orgs code st = Done st"
  using assms
  by (simp_all add: practice_step_def pcn_step_def eval_in_def is_practice_def is_pcn_def
      roles_of_def ebind_def)

lemma simple_change_not_closed:
  "simple_change ty code org = Inr c \<Longrightarrow> ty \<noteq> ''closed_practice'' \<Longrightarrow> ty \<noteq> ''closed_pcn'' \<Longrightarrow>
   not_closed c"
  by (auto simp: not_closed_def dest: simple_change_code)

lemma status_change_not_closed:
  "list_all not_closed (changes st) \<Longrightarrow>
   list_all not_closed (changes (state_of (status_change code old_org new_org st)))"
  by (auto simp: status_change_def eval_in_def append_change_def not_closed_def split: sum.splits)

lemma pcn_change_not_closed:
  "list_all not_closed (changes st) \<Longrightarrow>
   list_all not_closed (changes (state_of (pcn_change code old_org new_org st)))"
  by (auto simp: pcn_change_def eval_in_def append_change_def not_closed_def split: sum.splits)

lemma seq_not_closed:
  assumes "list_all not_closed (changes (state_of r))"
    "\<And>s. list_all not_closed (changes s) \<Longrightarrow> list_all not_closed (changes (state_of (k s)))"
  shows "list_all not_closed (changes (state_of (seq r k)))"
  using assms by (cases r) (auto simp: seq_def)

lemma practice_step_not_closed:
  "list_all not_closed (changes st) \<Longrightarrow>
   list_all not_closed (changes (state_of (practice_step old_orgs new_orgs code st)))"
  unfolding practice_step_def
  by (auto simp: eval_in_def append_change_def
      intro!: seq_not_closed status_change_not_closed pcn_change_not_closed
      dest: is_practice_truthy simple_change_not_closed split: sum.splits)

lemma pcn_step_not_closed:
  "list_all not_closed (changes st) \<Longrightarrow>
   list_all not_closed (changes (state_of (pcn_step old_orgs new_orgs code st)))"
  unfolding pcn_step_def
  by (auto simp: eval_in_def append_change_def
      intro!: status_change_not_closed
      dest: is_pcn_truthy simple_change_not_closed split: sum.splits)

lemma for_codes_not_closed:
  assumes "\<And>c s. list_all not_closed (changes s) \<Longrightarrow>
                  list_all not_closed (changes (state_of (body c s)))"
  shows "list_all not_closed (changes st) \<Longrightarrow>
         list_all not_closed (changes (state_of (for_codes body cs st)))"
  by (induction cs arbitrary: st) (auto intro!: seq_not_closed assms)

lemma closed_branch_unreachable:
  "list_all not_closed (changes (state_of (run_detection practice_step codes old new)))"
  "list_all not_closed (changes (state_of (run_detection pcn_step codes old new)))"
  by (auto simp: run_detection_def Let_def eval_in_def split: sum.splits
      intro!: for_codes_not_closed practice_step_not_closed pcn_step_not_closed)

section \<open>A readable snapshot against itself\<close>

lemma get_current_pcn_returns: "\<exists>v. get_current_pcn org = Inr v"
  unfolding get_current_pcn_def try_except_def
  by (cases "ebind (sget org ''Rels'' (JObj []))
               (\<lambda>rs. ebind (sget rs ''Rel'' (JArr [])) (\<lambda>rels. first_pcn (as_list rels)))") auto

lemma readable_org_dict: "readable_org org \<Longrightarrow> is_dict org"
  by (cases org) (simp_all add: readable_org_def)

lemma readable_roles:
  assumes "readable_org org"
  shows "\<exists>roles. roles_of org = Inr roles \<and> list_all is_dict roles"
proof -
  from assms obtain kvs where org: "org = JObj kvs"
    by (cases org) (simp_all add: readable_org_def)
  show ?thesis
  proof (cases "map_of kvs ''Roles''")
    case None
    with org show ?thesis by (simp add: roles_of_def ebind_def)
  next
    case (Some r)
    with assms org obtain rs where r: "r = JObj rs"
      by (cases r) (simp_all add: readable_org_def)
    show ?thesis
    proof (cases "map_of rs ''Role''")
      case None
      with org Some r show ?thesis by (simp add: roles_of_def ebind_def)
    next
      case inner: (Some x)
      with assms org Some r obtain roles where x: "x = JArr roles" "list_all is_dict roles"
        by (cases x) (simp_all add: readable_org_def)
      with org Some r inner show ?thesis by (simp add: roles_of_def ebind_def)
    qed
  qed
qed

lemma py_any_total:
  "list_all (\<lambda>x. \<exists>b. f x = Inr b) xs \<Longrightarrow> \<exists>b. py_any f xs = Inr b"
  by (induction xs) (auto split: bool.splits)

lemma is_dict_get: "is_dict x \<Longrightarrow> \<exists>v. dict_get x (JStr k) d = Inr v"
  by (cases x) auto

lemma readable_is_practice: "readable_org org \<Longrightarrow> \<exists>b. is_practice org = Inr b"
proof -
  assume "readable_org org"
  then obtain roles where r: "roles_of org = Inr roles" "list_all is_dict roles"
    by (auto dest: readable_roles)
  have "list_all (\<lambda>role. \<exists>b. ebind (sget role ''id'' JNull) (\<lambda>i. Inr (py_eq i (JStr ''RO76'')))
          = Inr b) roles"
    using r(2) by (auto simp: list_all_iff ebind_def dest!: is_dict_get[of _ "''id''" JNull])
  from py_any_total[OF this] r(1) show ?thesis
    by (simp add: is_practice_def ebind_def)
qed

lemma readable_is_pcn: "readable_org org \<Longrightarrow> \<exists>b. is_pcn org = Inr b"
proof -
  assume "readable_org org"
  then obtain roles where r: "roles_of org = Inr roles" "list_all is_dict roles"
    by (auto dest: readable_roles)
  have "\<exists>b. ebind (sget role ''id'' JNull) (\<lambda>i.
               if py_eq i (JStr ''RO272'')
               then ebind (sget role ''primaryRole'' (JBool False)) (\<lambda>p. Inr (py_truthy p))
               else Inr False) = Inr b" if "is_dict role" for role
    using that by (cases role) (auto simp: ebind_def)
  then have "list_all (\<lambda>role. \<exists>b. ebind (sget role ''id'' JNull) (\<lambda>i.
               if py_eq i (JStr ''RO272'')
               then ebind (sget role ''primaryRole'' (JBool False)) (\<lambda>p. Inr (py_truthy p))
               else Inr False) = Inr b) roles"
    using r(2) by (auto simp: list_all_iff)
  from py_any_total[OF this] r(1) show ?thesis
    by (simp add: is_pcn_def ebind_def)
qed

lemma readable_org_of:
  "list_all readable_entry (map snd orgs) \<Longrightarrow>
   \<exists>org. org_of (JObj orgs) code = Inr org \<and> readable_org org"
proof -
  assume a: "list_all readable_entry (map snd orgs)"
  show ?thesis
  proof (cases "map_of orgs code")
    case None
    then show ?thesis by (simp add: org_of_def ebind_def readable_org_def)
  next
    case (Some entry)
    then have "readable_entry entry"
      using a by (auto simp: list_all_iff dest!: map_of_SomeD)
    then obtain e where e: "entry = JObj e" by (cases entry) (auto simp: readable_entry_def)
    show ?thesis
    proof (cases "map_of e ''Organisation''")
      case None
      with Some e show ?thesis by (simp add: org_of_def ebind_def readable_org_def)
    next
      case (Some org)
      with \<open>readable_entry entry\<close> e have "readable_org org" by (simp add: readable_entry_def)
      with Some e \<open>map_of orgs code = Some entry\<close> show ?thesis
        by (simp add: org_of_def ebind_def)
    qed
  qed
qed

lemma readable_snapshot_cases:
  assumes "readable_snapshot data"
  obtains orgs where "sget data ''organisations'' (JObj []) = Inr (JObj orgs)"
    and "list_all readable_entry (map snd orgs)"
  using assms
  by (cases data) (auto simp: readable_snapshot_def split: option.splits json.splits)

lemma practice_step_self:
  assumes "org_of orgs code = Inr org" "readable_org org" "nan_free org"
  shows "practice_step orgs orgs code st = Done st"
proof -
  from assms(2) obtain b where b: "is_practice org = Inr b" by (auto dest: readable_is_practice)
  from assms(2) obtain kvs where org: "org = JObj kvs" by (cases org) (auto simp: readable_org_def)
  obtain s where s: "sget org ''Status'' JNull = Inr s" by (auto simp: org)
  obtain p where p: "get_current_pcn org = Inr p"
    using get_current_pcn_returns[of org] by blast
  have "nan_free s" by (rule nan_free_dict_get[OF assms(3) _ s]) simp
  then have "py_eq s s" by (intro py_eq_refl nan_free_not_NaN)
  with s have sc: "status_change code org org st = Done st"
    by (simp add: status_change_def eval_in_def)
  have "nan_free p" by (rule nan_free_get_current_pcn[OF assms(3) p])
  then have "py_eq p p" by (intro py_eq_refl nan_free_not_NaN)
  with p have pc: "pcn_change code org org st = Done st"
    by (simp add: pcn_change_def eval_in_def)
  show ?thesis
  proof (cases b)
    case True
    with b have "py_truthy org" by (auto dest: is_practice_truthy)
    with True b sc pc assms(1) show ?thesis
      by (simp add: practice_step_def eval_in_def seq_def)
  next
    case False
    with b assms(1) show ?thesis by (simp add: practice_step_def eval_in_def)
  qed
qed

lemma pcn_step_self:
  assumes "org_of orgs code = Inr org" "readable_org org" "nan_free org"
  shows "pcn_step orgs orgs code st = Done st"
proof -
  from assms(2) obtain b where b: "is_pcn org = Inr b" by (auto dest: readable_is_pcn)
  from assms(2) obtain kvs where org: "org = JObj kvs" by (cases org) (auto simp: readable_org_def)
  obtain s where s: "sget org ''Status'' JNull = Inr s" by (auto simp: org)
  have "nan_free s" by (rule nan_free_dict_get[OF assms(3) _ s]) simp
  then have "py_eq s s" by (intro py_eq_refl nan_free_not_NaN)
  with s have sc: "status_change code org org st = Done st"
    by (simp add: status_change_def eval_in_def)
  show ?thesis
  proof (cases b)
    case True
    with b have "py_truthy org" by (auto dest: is_pcn_truthy)
    with True b sc assms(1) show ?thesis
      by (simp add: pcn_step_def eval_in_def)
  next
    case False
    with b assms(1) show ?thesis by (simp add: pcn_step_def eval_in_def)
  qed
qed

lemma for_codes_self:
  assumes "\<And>c s. body c s = Done s"
  shows "for_codes body cs st = Done st"
  by (induction cs arbitrary: st) (auto simp: assms seq_def)

lemma run_detection_self:
  assumes step: "\<And>orgs code org st. org_of orgs code = Inr org \<Longrightarrow> readable_org org \<Longrightarrow>
             nan_free org \<Longrightarrow> step orgs orgs code st = Done st"
    and "readable_snapshot data" "nan_free data"
  shows "returned (run_detection step codes data data) = Inr []"
proof -
  from assms(2) obtain orgs where
    o: "sget data ''organisations'' (JObj []) = Inr (JObj orgs)" and
    r: "list_all readable_entry (map snd orgs)"
    by (rule readable_snapshot_cases)
  have nf: "nan_free (JObj orgs)" by (rule nan_free_dict_get[OF assms(3) _ o]) simp
  have "step (JObj orgs) (JObj orgs) code st = Done st" for code st
  proof -
    from readable_org_of[OF r, of code] obtain org where
      a: "org_of (JObj orgs) code = Inr org" and b: "readable_org org" by blast
    have c: "nan_free org" by (rule nan_free_org_of[OF nf a])
    show ?thesis by (rule step[OF a b c])
  qed
  then have "for_codes (step (JObj orgs) (JObj orgs)) codes st = Done st" for st
    by (intro for_codes_self)
  with o show ?thesis
    by (simp add: run_detection_def Let_def eval_in_def all_ods_codes_def ebind_def)
qed

section \<open>The claims\<close>

text \<open>
  Claim C1: for a code present in \<open>old\<close> and absent from \<open>new\<close> whose record in
  \<open>old\<close> matches the class filter, the differ emits exactly one "closed" record, the
  filter being evaluated against \<open>old\<close>.

  Both passes evaluate the filter on the record of \<open>new\<close> only. For a code that
  \<open>new\<close> lacks that record is the empty dict, the filter is false and the code is
  skipped before the "closed" branch (\<open>absent_from_new_is_skipped\<close>); no run emits a
  record of a "closed" type (\<open>closed_branch_unreachable\<close>). The theorem
  evaluates both passes on \<open>closed_old\<close>, which holds a practice \<open>P1\<close> and a network
  \<open>N1\<close>, and \<open>closed_new\<close>, which holds no organisation: no record is emitted, in
  either order of iteration.
\<close>

theorem closed_never_emitted:
  "iteration_order [''P1'', ''N1''] closed_old closed_new \<and>
   lookup_org closed_new ''P1'' = Inr (JObj []) \<and>
   lookup_org closed_new ''N1'' = Inr (JObj []) \<and>
   ebind (lookup_org closed_old ''P1'') is_practice = Inr True \<and>
   ebind (lookup_org closed_old ''N1'') is_pcn = Inr True \<and>
   detect_practice_changes [''P1'', ''N1''] closed_old closed_new = Inr [] \<and>
   detect_pcn_changes [''P1'', ''N1''] closed_old closed_new = Inr [] \<and>
   detect_practice_changes [''N1'', ''P1''] closed_old closed_new = Inr [] \<and>
   detect_pcn_changes [''N1'', ''P1''] closed_old closed_new = Inr []"
  by code_simp

text \<open>
  Claim C2: the candidates of membership resolution are the relationships with a network
  target, status Active and no end date, and the one with the greatest start date is
  selected; with starts 2020-01-01 (network A) and 2021-06-01 (network B) the result is
  B whatever the order of the list.

  \<^verbatim>\<open>get_current_pcn\<close> returns the target of the first candidate of the list and never
  reads a start date: with A listed before B it answers A, with B before A it answers B.
\<close>

theorem first_candidate_wins:
  "pcn_rel_match (ex_rel ''A'' ''2020-01-01'') = Inr True \<and>
   pcn_rel_match (ex_rel ''B'' ''2021-06-01'') = Inr True \<and>
   get_current_pcn (ex_practice (JArr [ex_rel ''A'' ''2020-01-01'', ex_rel ''B'' ''2021-06-01'']))
     = Inr (JStr ''A'') \<and>
   get_current_pcn (ex_practice (JArr [ex_rel ''B'' ''2021-06-01'', ex_rel ''A'' ''2020-01-01'']))
     = Inr (JStr ''B'')"
  by code_simp

text \<open>
  Claim C3: the detection functions complete without raising, also when a record has its
  role field as a single object; such a record is skipped.

  Neither function wraps \<^verbatim>\<open>Role\<close> in a list nor catches an exception. Iterating a
  single role object gives its keys, and \<^verbatim>\<open>.get\<close> on a key raises
  \<^verbatim>\<open>AttributeError\<close>, which leaves the function: the well-formed new practice
  \<open>P2\<close> of \<open>single_role_new\<close> is reported in neither order of iteration.
\<close>

theorem single_role_raises:
  "iteration_order [''P1'', ''P2''] (ex_snapshot []) single_role_new \<and>
   detect_practice_changes [''P1'', ''P2''] (ex_snapshot []) single_role_new = Inl AttributeError \<and>
   detect_practice_changes [''P2'', ''P1''] (ex_snapshot []) single_role_new = Inl AttributeError \<and>
   detect_pcn_changes [''P1'', ''P2''] (ex_snapshot []) single_role_new = Inl AttributeError \<and>
   detect_pcn_changes [''P2'', ''P1''] (ex_snapshot []) single_role_new = Inl AttributeError"
  by code_simp

text \<open>
  Claim C4: a relationship whose target code is not an organisation code of the same
  snapshot is not a candidate; an organisation with only such relationships resolves to
  no current membership.

  \<^verbatim>\<open>get_current_pcn\<close> is given the organisation record alone and never looks the
  target up. In \<open>dangling_new\<close> the only code is \<open>P1\<close>, its only relationship points
  to \<open>X9\<close>, and the resolved membership is \<open>X9\<close>; the practice pass reports a change
  of membership to \<open>X9\<close>, with no name.
\<close>

theorem dangling_target_resolved:
  "ebind (sget dangling_new ''organisations'' (JObj [])) dict_keys = Inr [''P1''] \<and>
   ebind (lookup_org dangling_new ''P1'') get_current_pcn = Inr (JStr ''X9'') \<and>
   detect_practice_changes [''P1''] dangling_old dangling_new =
     Inr [\<lparr>ctype = ''pcn_change'', ods_code = ''P1'', name = JStr ''Elm Surgery'',
           date_of_change = JStr ''2024-03-01'',
           detail = PcnDetail JNull JNull (JStr ''X9'') JNull\<rparr>]"
  by code_simp

text \<open>
  Claim C5: for every organisation of a snapshot, the resolution of the diffing path and
  the resolution of the reporting path give the same network code.

  For the practice \<open>P1\<close> of a snapshot that also holds the networks A and B, with
  open-ended Active relationships to A (from 2020-01-01) and to B (from 2021-06-01) in
  that order, \<^verbatim>\<open>get_current_pcn\<close> gives A and the loop of
  \<^verbatim>\<open>create_practice_pcn_report\<close> gives B. The row of
  \<^verbatim>\<open>extract_practice_data\<close> gives A: where that function returns a row, its code is
  the one \<^verbatim>\<open>get_current_pcn\<close> gives (\<open>extract_agrees_with_differ\<close>).
\<close>

theorem report_and_differ_disagree:
  "identify_pcns
     (ex_items (two_networks [ex_rel ''A'' ''2020-01-01'', ex_rel ''B'' ''2021-06-01'']))
     = Inr [''A'', ''B''] \<and>
   lookup_org (ex_snapshot (two_networks [ex_rel ''A'' ''2020-01-01'', ex_rel ''B'' ''2021-06-01''])) ''P1''
     = Inr (ex_practice (JArr [ex_rel ''A'' ''2020-01-01'', ex_rel ''B'' ''2021-06-01''])) \<and>
   get_current_pcn (ex_practice (JArr [ex_rel ''A'' ''2020-01-01'', ex_rel ''B'' ''2021-06-01'']))
     = Inr (JStr ''A'') \<and>
   report_current_pcn [''A'', ''B'']
     (ex_practice (JArr [ex_rel ''A'' ''2020-01-01'', ex_rel ''B'' ''2021-06-01'']))
     = Inr (JStr ''B'') \<and>
   extract_practice_pcn_code
     (JObj [(''Organisation'',
             ex_practice (JArr [ex_rel ''A'' ''2020-01-01'', ex_rel ''B'' ''2021-06-01'']))])
     = Inr (Some (JStr ''A''))"
  by code_simp

text \<open>
  Claim C6: an entity present in both snapshots whose status is unchanged and whose
  resolved current network differs between them gets a membership-change record, with
  the old and the new code, and no status-change record from the practice pass.

  The pass compares what \<^verbatim>\<open>get_current_pcn\<close> gives, the first candidate of the
  list, not the candidate with the latest start. The practice \<open>P1\<close> of
  \<open>hidden_old\<close> has open-ended Active relationships to network A (from 2020-01-01)
  and network B (from 2021-06-01), in \<open>hidden_new\<close> to A and to network C (from
  2022-04-01); its status is Active in both. The current network by latest start, which
  the loop of \<^verbatim>\<open>create_practice_pcn_report\<close> computes, moves from B to C;
  \<^verbatim>\<open>get_current_pcn\<close> gives A in both snapshots and the practice pass emits no
  record, in either order of iteration. Where the first candidates differ the record is
  emitted (\<open>change_of_first_candidate_reported\<close>).
\<close>

theorem hidden_membership_change:
  "iteration_order [''P1'', ''A'', ''B'', ''C''] hidden_old hidden_new \<and>
   lookup_org hidden_old ''P1''
     = Inr (ex_practice (JArr [ex_rel ''A'' ''2020-01-01'', ex_rel ''B'' ''2021-06-01''])) \<and>
   lookup_org hidden_new ''P1''
     = Inr (ex_practice (JArr [ex_rel ''A'' ''2020-01-01'', ex_rel ''C'' ''2022-04-01''])) \<and>
   is_practice (ex_practice (JArr [ex_rel ''A'' ''2020-01-01'', ex_rel ''C'' ''2022-04-01'']))
     = Inr True \<and>
   sget (ex_practice (JArr [ex_rel ''A'' ''2020-01-01'', ex_rel ''B'' ''2021-06-01'']))
     ''Status'' JNull = Inr (JStr ''Active'') \<and>
   sget (ex_practice (JArr [ex_rel ''A'' ''2020-01-01'', ex_rel ''C'' ''2022-04-01'']))
     ''Status'' JNull = Inr (JStr ''Active'') \<and>
   report_current_pcn [''A'', ''B'', ''C'']
     (ex_practice (JArr [ex_rel ''A'' ''2020-01-01'', ex_rel ''B'' ''2021-06-01'']))
     = Inr (JStr ''B'') \<and>
   report_current_pcn [''A'', ''B'', ''C'']
     (ex_practice (JArr [ex_rel ''A'' ''2020-01-01'', ex_rel ''C'' ''2022-04-01'']))
     = Inr (JStr ''C'') \<and>
   get_current_pcn (ex_practice (JArr [ex_rel ''A'' ''2020-01-01'', ex_rel ''B'' ''2021-06-01'']))
     = Inr (JStr ''A'') \<and>
   get_current_pcn (ex_practice (JArr [ex_rel ''A'' ''2020-01-01'', ex_rel ''C'' ''2022-04-01'']))
     = Inr (JStr ''A'') \<and>
   detect_practice_changes [''P1'', ''A'', ''B'', ''C''] hidden_old hidden_new = Inr [] \<and>
   detect_practice_changes [''C'', ''B'', ''A'', ''P1''] hidden_old hidden_new = Inr []"
  by code_simp

text \<open>
  Claim C7: diffing a snapshot against itself yields no Change Record, for the practice
  pass and for the network pass.

  As stated this fails for a practice whose status is NaN, a value \<^verbatim>\<open>json.load\<close>
  returns: NaN is not equal to itself, so the pass reports a change of status.
\<close>

theorem nan_status_self_diff:
  "readable_snapshot nan_status_snapshot \<and>
   iteration_order [''P1''] nan_status_snapshot nan_status_snapshot \<and>
   detect_practice_changes [''P1''] nan_status_snapshot nan_status_snapshot =
     Inr [\<lparr>ctype = ''status_change'', ods_code = ''P1'', name = JStr ''Elm Surgery'',
           date_of_change = JStr ''2024-03-01'',
           detail = StatusDetail (JNum NaN) (JNum NaN)\<rparr>]"
  by code_simp

text \<open>
  Claim C7, amended: for every readable snapshot that holds no NaN, diffing the snapshot
  against itself returns the empty list, for the practice pass and for the network pass,
  whatever the order of iteration.
\<close>

theorem self_diff_is_empty:
  "readable_snapshot data \<and> nan_free data \<longrightarrow>
     detect_practice_changes codes data data = Inr [] \<and>
     detect_pcn_changes codes data data = Inr []"
proof (intro impI)
  assume a: "readable_snapshot data \<and> nan_free data"
  then have r: "readable_snapshot data" and n: "nan_free data" by blast+
  have p: "returned (run_detection practice_step codes data data) = Inr []"
  proof (rule run_detection_self[OF _ r n])
    fix orgs code org st
    assume "org_of orgs code = Inr org" "readable_org org" "nan_free org"
    then show "practice_step orgs orgs code st = Done st" by (rule practice_step_self)
  qed
  have q: "returned (run_detection pcn_step codes data data) = Inr []"
  proof (rule run_detection_self[OF _ r n])
    fix orgs code org st
    assume "org_of orgs code = Inr org" "readable_org org" "nan_free org"
    then show "pcn_step orgs orgs code st = Done st" by (rule pcn_step_self)
  qed
  from p q show "detect_practice_changes codes data data = Inr [] \<and>
     detect_pcn_changes codes data data = Inr []"
    by (simp add: detect_practice_changes_def detect_pcn_changes_def)
qed

theorem self_diff_is_empty_witness:
  "readable_snapshot moved_new \<and> nan_free moved_new \<and>
   iteration_order [''B'', ''P1'', ''A''] moved_new moved_new \<and>
   detect_practice_changes [''B'', ''P1'', ''A''] moved_new moved_new = Inr [] \<and>
   detect_pcn_changes [''B'', ''P1'', ''A''] moved_new moved_new = Inr []"
proof -
  have r: "readable_snapshot moved_new" by code_simp
  have n: "nan_free moved_new" by code_simp
  have ord: "iteration_order [''B'', ''P1'', ''A''] moved_new moved_new" by code_simp
  from self_diff_is_empty[of moved_new "[''B'', ''P1'', ''A'']"] r n ord
  show ?thesis by blast
qed

text \<open>
  Claim C8: a run with no Change Record in either class leaves the history as it is; a
  run with at least one appends exactly one entry, whose counts are, for each class and
  each kind, the number of records of that kind in the list of that class, and whose
  total is the sum of the lengths of the two lists.
\<close>

theorem history_append:
  "(practice_changes ch = [] \<and> pcn_changes ch = [] \<longrightarrow>
      update_tracked_changes ch current_file today file = file) \<and>
   (practice_changes ch \<noteq> [] \<or> pcn_changes ch \<noteq> [] \<longrightarrow>
      (\<exists>e. history (update_tracked_changes ch current_file today file) = history file @ [e] \<and>
           total_changes (summary e) = length (practice_changes ch) + length (pcn_changes ch) \<and>
           p_total (practice_summary (summary e)) = length (practice_changes ch) \<and>
           p_new (practice_summary (summary e))
             = count_list (map ctype (practice_changes ch)) ''new_practice'' \<and>
           p_closed (practice_summary (summary e))
             = count_list (map ctype (practice_changes ch)) ''closed_practice'' \<and>
           p_status (practice_summary (summary e))
             = count_list (map ctype (practice_changes ch)) ''status_change'' \<and>
           p_pcn (practice_summary (summary e))
             = count_list (map ctype (practice_changes ch)) ''pcn_change'' \<and>
           n_total (pcn_summary (summary e)) = length (pcn_changes ch) \<and>
           n_new (pcn_summary (summary e))
             = count_list (map ctype (pcn_changes ch)) ''new_pcn'' \<and>
           n_closed (pcn_summary (summary e))
             = count_list (map ctype (pcn_changes ch)) ''closed_pcn'' \<and>
           n_status (pcn_summary (summary e))
             = count_list (map ctype (pcn_changes ch)) ''status_change'' \<and>
           entry_practice_changes e = practice_changes ch \<and>
           entry_pcn_changes e = pcn_changes ch))"
proof (intro conjI impI)
  assume "practice_changes ch = [] \<and> pcn_changes ch = []"
  then show "update_tracked_changes ch current_file today file = file"
    by (simp add: update_tracked_changes_def)
next
  assume ne: "practice_changes ch \<noteq> [] \<or> pcn_changes ch \<noteq> []"
  let ?e = "\<lparr>date = today, data_file = basename current_file, summary = make_summary ch,
             entry_practice_changes = practice_changes ch,
             entry_pcn_changes = pcn_changes ch\<rparr>"
  from ne have "history (update_tracked_changes ch current_file today file) = history file @ [?e]"
    by (auto simp: update_tracked_changes_def history_def)
  then show "\<exists>e. history (update_tracked_changes ch current_file today file) = history file @ [e] \<and>
           total_changes (summary e) = length (practice_changes ch) + length (pcn_changes ch) \<and>
           p_total (practice_summary (summary e)) = length (practice_changes ch) \<and>
           p_new (practice_summary (summary e))
             = count_list (map ctype (practice_changes ch)) ''new_practice'' \<and>
           p_closed (practice_summary (summary e))
             = count_list (map ctype (practice_changes ch)) ''closed_practice'' \<and>
           p_status (practice_summary (summary e))
             = count_list (map ctype (practice_changes ch)) ''status_change'' \<and>
           p_pcn (practice_summary (summary e))
             = count_list (map ctype (practice_changes ch)) ''pcn_change'' \<and>
           n_total (pcn_summary (summary e)) = length (pcn_changes ch) \<and>
           n_new (pcn_summary (summary e))
             = count_list (map ctype (pcn_changes ch)) ''new_pcn'' \<and>
           n_closed (pcn_summary (summary e))
             = count_list (map ctype (pcn_changes ch)) ''closed_pcn'' \<and>
           n_status (pcn_summary (summary e))
             = count_list (map ctype (pcn_changes ch)) ''status_change'' \<and>
           entry_practice_changes e = practice_changes ch \<and>
           entry_pcn_changes e = pcn_changes ch"
    by (intro exI[of _ ?e]) (simp add: make_summary_def count_type_def count_list_filter)
qed

theorem history_append_witness:
  "update_tracked_changes \<lparr>practice_changes = [], pcn_changes = []\<rparr>
     ''data/ncl_icb_data_20240302.json'' ''2024-03-02'' None = None \<and>
   ex_run \<noteq> \<lparr>practice_changes = [], pcn_changes = []\<rparr> \<and>
   (\<exists>e. history (update_tracked_changes ex_run ''data/ncl_icb_data_20240302.json'' ''2024-03-02'' None)
          = [e] \<and>
        total_changes (summary e) = 3 \<and>
        p_new (practice_summary (summary e)) = 1 \<and>
        p_closed (practice_summary (summary e)) = 0 \<and>
        p_status (practice_summary (summary e)) = 1 \<and>
        p_pcn (practice_summary (summary e)) = 0 \<and>
        n_new (pcn_summary (summary e)) = 1 \<and>
        n_status (pcn_summary (summary e)) = 0)"
proof -
  have ne: "practice_changes ex_run \<noteq> [] \<or> pcn_changes ex_run \<noteq> []"
    by (simp add: ex_run_def)
  have val: "ex_run \<noteq> \<lparr>practice_changes = [], pcn_changes = []\<rparr>"
    by (simp add: ex_run_def)
  from history_append[of "\<lparr>practice_changes = [], pcn_changes = []\<rparr>"
      "''data/ncl_icb_data_20240302.json''" "''2024-03-02''" None]
  have a: "update_tracked_changes \<lparr>practice_changes = [], pcn_changes = []\<rparr>
     ''data/ncl_icb_data_20240302.json'' ''2024-03-02'' None = None"
    by simp
  from history_append[of ex_run "''data/ncl_icb_data_20240302.json''" "''2024-03-02''" None] ne
  obtain e where
    "history (update_tracked_changes ex_run ''data/ncl_icb_data_20240302.json'' ''2024-03-02'' None)
       = history None @ [e]"
    "total_changes (summary e) = length (practice_changes ex_run) + length (pcn_changes ex_run)"
    "p_new (practice_summary (summary e))
       = count_list (map ctype (practice_changes ex_run)) ''new_practice''"
    "p_closed (practice_summary (summary e))
       = count_list (map ctype (practice_changes ex_run)) ''closed_practice''"
    "p_status (practice_summary (summary e))
       = count_list (map ctype (practice_changes ex_run)) ''status_change''"
    "p_pcn (practice_summary (summary e))
       = count_list (map ctype (practice_changes ex_run)) ''pcn_change''"
    "n_new (pcn_summary (summary e)) = count_list (map ctype (pcn_changes ex_run)) ''new_pcn''"
    "n_status (pcn_summary (summary e))
       = count_list (map ctype (pcn_changes ex_run)) ''status_change''"
    by blast
  then have "history (update_tracked_changes ex_run ''data/ncl_icb_data_20240302.json'' ''2024-03-02'' None)
          = [e] \<and>
        total_changes (summary e) = 3 \<and>
        p_new (practice_summary (summary e)) = 1 \<and>
        p_closed (practice_summary (summary e)) = 0 \<and>
        p_status (practice_summary (summary e)) = 1 \<and>
        p_pcn (practice_summary (summary e)) = 0 \<and>
        n_new (pcn_summary (summary e)) = 1 \<and>
        n_status (pcn_summary (summary e)) = 0"
    by (simp add: ex_run_def history_def)
  with a val show ?thesis by blast
qed

text \<open>
  Claim C10: \<^verbatim>\<open>get_current_pcn\<close> returns a target code string or \<^verbatim>\<open>None\<close> and
  never propagates an exception; if any relationship entry of the list is malformed, the
  whole resolution returns \<^verbatim>\<open>None\<close>, suppressing valid candidates later in the list.

  As stated this fails where a candidate precedes the malformed entry: the scan returns
  at the candidate and never reaches the entry. It also fails where the target code of
  the candidate is not a string: the value is returned as it is.
\<close>

theorem candidate_before_malformed_entry:
  "pcn_rel_match (single_date_rel ''B'') = Inl AttributeError \<and>
   pcn_rel_match (ex_rel ''A'' ''2020-01-01'') = Inr True \<and>
   get_current_pcn (ex_practice (JArr [ex_rel ''A'' ''2020-01-01'', single_date_rel ''B'']))
     = Inr (JStr ''A'') \<and>
   get_current_pcn (ex_practice (JArr [ex_rel ''A'' ''2020-01-01'', single_date_rel ''B'']))
     \<noteq> Inr JNull \<and>
   get_current_pcn (ex_practice (JArr [numeric_code_rel])) = Inr (JNum (Finite 5))"
  by code_simp

text \<open>
  Claim C10, amended: \<^verbatim>\<open>get_current_pcn\<close> never propagates an exception; for
  every organisation record it returns either \<^verbatim>\<open>None\<close> or the target code (the
  value under \<^verbatim>\<open>extension\<close>) of one of the candidates among the relationship entries
  of the record. If reading some entry raises and no entry before it is a candidate, the
  whole resolution returns \<^verbatim>\<open>None\<close>, whatever candidates follow in the list.
\<close>

theorem get_current_pcn_result:
  "(\<exists>v. get_current_pcn org = Inr v \<and>
        (v = JNull \<or>
         list_ex (\<lambda>rel. pcn_rel_match rel = Inr True \<and> target_code rel = Inr v)
                 (scanned_rels org))) \<and>
   (scanned_rels org = pre @ rel # post \<and>
    list_all (\<lambda>r. pcn_rel_match r \<noteq> Inr True) pre \<and>
    pcn_rel_match rel = Inl e \<longrightarrow>
      get_current_pcn org = Inr JNull)"
proof (intro conjI impI)
  show "\<exists>v. get_current_pcn org = Inr v \<and>
        (v = JNull \<or>
         list_ex (\<lambda>rel. pcn_rel_match rel = Inr True \<and> target_code rel = Inr v)
                 (scanned_rels org))"
  proof (cases "first_pcn (scanned_rels org)")
    case (Inl e)
    then show ?thesis by (simp add: get_current_pcn_scanned try_except_def)
  next
    case (Inr v)
    with first_pcn_result[OF Inr] show ?thesis
      by (simp add: get_current_pcn_scanned try_except_def)
  qed
next
  assume "scanned_rels org = pre @ rel # post \<and>
    list_all (\<lambda>r. pcn_rel_match r \<noteq> Inr True) pre \<and> pcn_rel_match rel = Inl e"
  then obtain e' where "first_pcn (scanned_rels org) = Inl e'"
    using first_pcn_raises[of pre rel e post] by auto
  then show "get_current_pcn org = Inr JNull"
    by (simp add: get_current_pcn_scanned try_except_def)
qed

theorem get_current_pcn_result_witness:
  "scanned_rels (ex_practice (JArr [ended_rel ''A'', single_date_rel ''B'', ex_rel ''C'' ''2021-06-01'']))
     = [ended_rel ''A''] @ single_date_rel ''B'' # [ex_rel ''C'' ''2021-06-01''] \<and>
   pcn_rel_match (ended_rel ''A'') = Inr False \<and>
   pcn_rel_match (single_date_rel ''B'') = Inl AttributeError \<and>
   pcn_rel_match (ex_rel ''C'' ''2021-06-01'') = Inr True \<and>
   get_current_pcn (ex_practice (JArr [ended_rel ''A'', single_date_rel ''B'', ex_rel ''C'' ''2021-06-01'']))
     = Inr JNull"
proof -
  let ?org = "ex_practice (JArr [ended_rel ''A'', single_date_rel ''B'', ex_rel ''C'' ''2021-06-01''])"
  have s: "scanned_rels ?org
     = [ended_rel ''A''] @ single_date_rel ''B'' # [ex_rel ''C'' ''2021-06-01'']"
    by (simp add: scanned_rels_def ex_practice_def ex_org_def ebind_def)
  have a: "pcn_rel_match (ended_rel ''A'') = Inr False" by code_simp
  have b: "pcn_rel_match (single_date_rel ''B'') = Inl AttributeError" by code_simp
  have c: "pcn_rel_match (ex_rel ''C'' ''2021-06-01'') = Inr True" by code_simp
  have pre: "list_all (\<lambda>r. pcn_rel_match r \<noteq> Inr True) [ended_rel ''A'']"
    using a by simp
  from get_current_pcn_result[of ?org "[ended_rel ''A'']" "single_date_rel ''B''"
      "[ex_rel ''C'' ''2021-06-01'']" AttributeError] s pre b
  have "get_current_pcn ?org = Inr JNull" by blast
  with s a b c show ?thesis by blast
qed

end
